theory Spec2Isabelle
  imports Main "HOL-Library.Sublist"
begin

section \<open>The phrase-filter content script (extension/content.js)\<close>

text \<open>
  The content script locates listing cards on a supported auction site, reads each
  card's title, and marks the card with one of two attributes according to the user's
  include and exclude phrases. The model below follows the current revision of
  \<^verbatim>\<open>extension/content.js\<close>. JavaScript strings are modelled as \<^typ>\<open>string\<close>
  restricted to ASCII text: whitespace is the ASCII whitespace that
  \<^verbatim>\<open>String.prototype.trim\<close> strips, and lower-casing maps \<^verbatim>\<open>A\<close>..\<^verbatim>\<open>Z\<close> to
  \<^verbatim>\<open>a\<close>..\<^verbatim>\<open>z\<close>. A value that may be \<^verbatim>\<open>null\<close> or \<^verbatim>\<open>undefined\<close> is an
  \<^typ>\<open>'a option\<close>.
\<close>

subsection \<open>String primitives of the host language\<close>

definition is_space :: "char \<Rightarrow> bool" where
  "is_space c = (c \<in> {CHR 0x09, CHR 0x0A, CHR 0x0B, CHR 0x0C, CHR 0x0D, CHR '' ''})"

definition trim :: "string \<Rightarrow> string" where
  "trim s = rev (dropWhile is_space (rev (dropWhile is_space s)))"

definition to_lower_char :: "char \<Rightarrow> char" where
  "to_lower_char c =
     (let n = (of_char c :: nat)
      in if 65 \<le> n \<and> n \<le> 90 then char_of (n + 32) else c)"

definition toLowerCase :: "string \<Rightarrow> string" where
  "toLowerCase s = map to_lower_char s"

text \<open>\<^verbatim>\<open>h.includes(p)\<close>: \<^verbatim>\<open>p\<close> occurs in \<^verbatim>\<open>h\<close> at some position.\<close>

fun includes_str :: "string \<Rightarrow> string \<Rightarrow> bool" where
  "includes_str [] p = (p = [])"
| "includes_str (c # cs) p = (prefix p (c # cs) \<or> includes_str cs p)"

text \<open>\<^verbatim>\<open>h.endsWith(s)\<close>: the last \<^verbatim>\<open>s.length\<close> characters of \<^verbatim>\<open>h\<close> are \<^verbatim>\<open>s\<close>.\<close>

definition endsWith :: "string \<Rightarrow> string \<Rightarrow> bool" where
  "endsWith h s = (length s \<le> length h \<and> drop (length h - length s) h = s)"

text \<open>
  \<^verbatim>\<open>a || b\<close> on a string that may be \<^verbatim>\<open>null\<close>: the empty string and \<^verbatim>\<open>null\<close> are
  falsy, every other string is truthy.
\<close>

definition or_else :: "string option \<Rightarrow> string \<Rightarrow> string" where
  "or_else a b = (case a of None \<Rightarrow> b | Some s \<Rightarrow> if s = [] then b else s)"

subsection \<open>Constants and the static per-site tables\<close>

definition HIGHLIGHT_ATTR :: string where
  "HIGHLIGHT_ATTR = ''data-phrasefilter-highlight''"

definition HIDDEN_ATTR :: string where
  "HIDDEN_ATTR = ''data-phrasefilter-hidden''"

text \<open>
  The tables are object literals; \<^verbatim>\<open>Object.entries\<close> walks them in insertion order,
  so each is an association list.
\<close>

definition ITEM_SELECTOR_BY_DOMAIN :: "(string \<times> string) list" where
  \<open>ITEM_SELECTOR_BY_DOMAIN =
     [(''bidfta.com'',
       ''div[role="button"][aria-label="Click to navigate to item details"]''),
      (''govdeals.com'', ''div.card.card-search'')]\<close>

definition TITLE_SELECTOR_BY_DOMAIN :: "(string \<times> string) list" where
  "TITLE_SELECTOR_BY_DOMAIN =
     [(''bidfta.com'', ''h4''),
      (''govdeals.com'', ''.card-title a'')]"

subsection \<open>Site rules\<close>

text \<open>
  \<^verbatim>\<open>SiteRules\<close> has two optional \<^verbatim>\<open>string[]\<close> properties. \<open>None\<close> is a property
  that holds no array.
\<close>

record siteRules =
  includePhrases :: "string list option"
  excludePhrases :: "string list option"

definition defaultSiteRules :: siteRules where
  "defaultSiteRules = \<lparr>includePhrases = Some [], excludePhrases = Some []\<rparr>"

subsection \<open>Host matching and selector lookup\<close>

definition hostMatchesDomain :: "string \<Rightarrow> string \<Rightarrow> bool" where
  "hostMatchesDomain host domain =
     (if host = [] \<or> domain = [] then False
      else host = domain \<or> endsWith host (''.'' @ domain))"

text \<open>
  The loop of \<^verbatim>\<open>getItemSelectorForHost\<close> skips entries that do not match, returns the
  trimmed selector of the first matching entry when it is not blank, and otherwise
  leaves the loop. After the loop the function ends without a \<^verbatim>\<open>return\<close>, so the
  caller receives \<^verbatim>\<open>undefined\<close>, here \<open>None\<close>.
\<close>

fun itemSelectorLoop :: "(string \<times> string) list \<Rightarrow> string \<Rightarrow> string option" where
  "itemSelectorLoop [] host = None"
| "itemSelectorLoop ((domain, selector) # rest) host =
     (if \<not> hostMatchesDomain host domain then itemSelectorLoop rest host
      else let trimmed = trim (or_else (Some selector) [])
           in if trimmed \<noteq> [] then Some trimmed else None)"

definition getItemSelectorForHost :: "string \<Rightarrow> string option" where
  "getItemSelectorForHost host = itemSelectorLoop ITEM_SELECTOR_BY_DOMAIN host"

fun titleSelectorLoop :: "(string \<times> string) list \<Rightarrow> string \<Rightarrow> string" where
  "titleSelectorLoop [] host = []"
| "titleSelectorLoop ((domain, selector) # rest) host =
     (if \<not> hostMatchesDomain host domain then titleSelectorLoop rest host
      else trim (or_else (Some selector) []))"

definition getTitleSelectorForHost :: "string \<Rightarrow> string" where
  "getTitleSelectorForHost host = titleSelectorLoop TITLE_SELECTOR_BY_DOMAIN host"

subsection \<open>Text normalisation and phrase matching\<close>

definition normalizeText :: "string \<Rightarrow> string" where
  "normalizeText s = toLowerCase (trim (or_else (Some s) []))"

definition normalizePhrases :: "string list option \<Rightarrow> string list" where
  "normalizePhrases arr =
     (let list = (case arr of Some xs \<Rightarrow> xs | None \<Rightarrow> [])
      in filter (\<lambda>p. p \<noteq> []) (map normalizeText list))"

definition hasAnyPhrase :: "string \<Rightarrow> string list \<Rightarrow> bool" where
  "hasAnyPhrase haystackLower phrasesLower =
     (if haystackLower = [] then False
      else if phrasesLower = [] then False
      else list_ex (\<lambda>p. p \<noteq> [] \<and> includes_str haystackLower p) phrasesLower)"

subsection \<open>Cards and their title elements\<close>

text \<open>
  An element carries its attributes and its text content. A card is an element of the
  page: its attributes, its inline \<^verbatim>\<open>style.display\<close>, the selectors it matches, and the
  answer of \<^verbatim>\<open>card.querySelector\<close> for each selector (its descendants).
\<close>

record element =
  el_attrs :: "string \<rightharpoonup> string"
  el_textContent :: string

record card =
  card_attrs :: "string \<rightharpoonup> string"
  card_display :: string
  card_matches :: "string \<Rightarrow> bool"
  card_querySelector :: "string \<Rightarrow> element option"

text \<open>The module variable \<^verbatim>\<open>currentHost\<close> is passed as the argument \<open>host\<close>.\<close>

definition findTitleElementForHost :: "string \<Rightarrow> card \<Rightarrow> element option" where
  "findTitleElementForHost host c =
     (let titleSelector = getTitleSelectorForHost host
      in if titleSelector = [] then None else card_querySelector c titleSelector)"

text \<open>
  The text picked from a title element, before the final \<^verbatim>\<open>trim\<close>:
  \<^verbatim>\<open>titleEl.getAttribute("title") || titleEl.textContent || ""\<close>.
\<close>

definition rawTitleText :: "element \<Rightarrow> string" where
  "rawTitleText titleEl =
     or_else (el_attrs titleEl ''title'') (or_else (Some (el_textContent titleEl)) [])"

definition getTitleTextFromCard :: "string \<Rightarrow> card \<Rightarrow> string" where
  "getTitleTextFromCard host c =
     (case findTitleElementForHost host c of
        None \<Rightarrow> []
      | Some titleEl \<Rightarrow> trim (rawTitleText titleEl))"

subsection \<open>Markers\<close>

definition setHidden :: "card \<Rightarrow> bool \<Rightarrow> card" where
  "setHidden c shouldHide =
     (if shouldHide then c\<lparr>card_attrs := (card_attrs c)(HIDDEN_ATTR \<mapsto> ''1'')\<rparr>
      else c\<lparr>card_attrs := (card_attrs c)(HIDDEN_ATTR := None)\<rparr>)"

definition setHighlighted :: "card \<Rightarrow> bool \<Rightarrow> card" where
  "setHighlighted c shouldHighlight =
     (if shouldHighlight then c\<lparr>card_attrs := (card_attrs c)(HIGHLIGHT_ATTR \<mapsto> ''1'')\<rparr>
      else c\<lparr>card_attrs := (card_attrs c)(HIGHLIGHT_ATTR := None)\<rparr>)"

subsection \<open>Applying the rules to one card\<close>

definition applyRulesToCard :: "string \<Rightarrow> card \<Rightarrow> siteRules \<Rightarrow> card" where
  "applyRulesToCard host c rules =
     (let titleLower = normalizeText (getTitleTextFromCard host c)
      in if titleLower = [] then setHighlighted (setHidden c False) False
         else
           let includePhrasesLower = normalizePhrases (includePhrases rules);
               excludePhrasesLower = normalizePhrases (excludePhrases rules);
               isExcluded = hasAnyPhrase titleLower excludePhrasesLower
           in if isExcluded then setHidden (setHighlighted c False) True
              else
                let isIncluded = hasAnyPhrase titleLower includePhrasesLower
                in setHighlighted (setHidden c False) isIncluded)"

subsection \<open>Scanning the page\<close>

text \<open>
  The page holds its elements in document order, whether the style sheet of the
  extension has been injected, and the diagnostic log. Each scan writes one
  \<^verbatim>\<open>Applied rules\<close> entry. The pass over \<^verbatim>\<open>button[data-bid]\<close> elements that follows
  the cards rewrites button text only and is not part of this page model.
\<close>

record logEntry =
  log_host :: string
  log_effectiveSelector :: "string option"
  log_cardsSeen :: nat
  log_includeCount :: nat
  log_excludeCount :: nat

record page =
  page_elements :: "card list"
  page_style_injected :: bool
  page_log :: "logEntry list"

text \<open>
  \<^verbatim>\<open>document.querySelectorAll\<close> converts its argument to a string, so \<^verbatim>\<open>undefined\<close>
  selects the elements named \<^verbatim>\<open>undefined\<close>.
\<close>

definition selectorString :: "string option \<Rightarrow> string" where
  "selectorString sel = (case sel of None \<Rightarrow> ''undefined'' | Some s \<Rightarrow> s)"

definition phraseCount :: "string list option \<Rightarrow> nat" where
  "phraseCount arr = length (case arr of Some xs \<Rightarrow> xs | None \<Rightarrow> [])"

definition applyRulesToPage :: "string \<Rightarrow> siteRules \<Rightarrow> page \<Rightarrow> page" where
  "applyRulesToPage host rules pg =
     (let effectiveSelector = getItemSelectorForHost host;
          isCard = (\<lambda>c. card_matches c (selectorString effectiveSelector));
          cardsSeen = length (filter isCard (page_elements pg))
      in pg\<lparr>page_elements :=
               map (\<lambda>c. if isCard c then applyRulesToCard host c rules else c)
                 (page_elements pg),
             page_style_injected := True,
             page_log := page_log pg @
               [\<lparr>log_host = host,
                 log_effectiveSelector = effectiveSelector,
                 log_cardsSeen = cardsSeen,
                 log_includeCount = phraseCount (includePhrases rules),
                 log_excludeCount = phraseCount (excludePhrases rules)\<rparr>]\<rparr>)"

subsection \<open>The mutation observer\<close>

text \<open>
  A mutation record lists the nodes it added and the nodes it removed. The callback of
  \<^verbatim>\<open>startObserver\<close> walks the batch until it finds a record that added a node, and
  scans the page when it found one.
\<close>

record mutationRecord =
  addedNodes :: "nat list"
  removedNodes :: "nat list"

fun anyAdded :: "mutationRecord list \<Rightarrow> bool" where
  "anyAdded [] = False"
| "anyAdded (m # ms) = (if addedNodes m \<noteq> [] then True else anyAdded ms)"

definition observerCallback ::
    "string \<Rightarrow> siteRules \<Rightarrow> mutationRecord list \<Rightarrow> page \<Rightarrow> page" where
  "observerCallback host rules mutations pg =
     (let added = anyAdded mutations
      in if \<not> added then pg else applyRulesToPage host rules pg)"

section \<open>Properties\<close>

subsection \<open>Auxiliary facts\<close>

lemma includes_str_sublist: "includes_str h p \<longleftrightarrow> sublist p h"
  by (induction h) (auto simp: sublist_Cons_right)

lemma endsWith_suffix: "endsWith h s \<longleftrightarrow> suffix s h"
proof
  assume "endsWith h s"
  then have "drop (length h - length s) h = s" by (simp add: endsWith_def)
  then show "suffix s h" by (metis suffix_drop)
next
  assume "suffix s h"
  then obtain ps where "h = ps @ s" by (auto simp: suffix_def)
  then show "endsWith h s" by (simp add: endsWith_def)
qed

lemma marker_attrs_distinct: "HIGHLIGHT_ATTR \<noteq> HIDDEN_ATTR"
  by (simp add: HIGHLIGHT_ATTR_def HIDDEN_ATTR_def)

lemma hasAnyPhrase_iff:
  "hasAnyPhrase h ps \<longleftrightarrow> h \<noteq> [] \<and> (\<exists>p\<in>set ps. p \<noteq> [] \<and> sublist p h)"
  by (auto simp: hasAnyPhrase_def list_ex_iff includes_str_sublist)

lemma normalizePhrases_nonempty: "p \<in> set (normalizePhrases arr) \<Longrightarrow> p \<noteq> []"
  by (simp add: normalizePhrases_def)

lemma hasAnyPhrase_normalized:
  "hasAnyPhrase t (normalizePhrases arr) \<longleftrightarrow> (\<exists>p\<in>set (normalizePhrases arr). sublist p t)"
proof
  assume "hasAnyPhrase t (normalizePhrases arr)"
  then show "\<exists>p\<in>set (normalizePhrases arr). sublist p t"
    by (auto simp: hasAnyPhrase_iff)
next
  assume "\<exists>p\<in>set (normalizePhrases arr). sublist p t"
  then obtain p where p: "p \<in> set (normalizePhrases arr)" "sublist p t" by blast
  from p(1) have "p \<noteq> []" by (rule normalizePhrases_nonempty)
  moreover from this p(2) have "t \<noteq> []" by auto
  ultimately show "hasAnyPhrase t (normalizePhrases arr)"
    using p by (auto simp: hasAnyPhrase_iff)
qed

lemma setHidden_attrs:
  "card_attrs (setHidden c b) = (card_attrs c)(HIDDEN_ATTR := (if b then Some ''1'' else None))"
  by (simp add: setHidden_def)

lemma setHighlighted_attrs:
  "card_attrs (setHighlighted c b) =
     (card_attrs c)(HIGHLIGHT_ATTR := (if b then Some ''1'' else None))"
  by (simp add: setHighlighted_def)

lemma anyAdded_iff: "anyAdded ms \<longleftrightarrow> (\<exists>m\<in>set ms. addedNodes m \<noteq> [])"
  by (induction ms) auto

lemma applyRulesToPage_log:
  "length (page_log (applyRulesToPage host rules pg)) = Suc (length (page_log pg))"
  by (simp add: applyRulesToPage_def Let_def)

subsection \<open>Exclude precedence\<close>

text \<open>
  C1. When the normalised title of a card contains a normalised exclude phrase and also a
  normalised include phrase, \<open>applyRulesToCard\<close> takes the excluded branch: the
  exclusion marker is set to \<open>1\<close>, the highlight marker is removed, and the result
  is the same for every value of the include list, so the include test plays no part.
\<close>

theorem applyRulesToCard_exclude_wins:
  assumes "\<exists>p\<in>set (normalizePhrases (excludePhrases rules)).
             sublist p (normalizeText (getTitleTextFromCard host c))"
    and "\<exists>p\<in>set (normalizePhrases (includePhrases rules)).
             sublist p (normalizeText (getTitleTextFromCard host c))"
  shows "applyRulesToCard host c rules = setHidden (setHighlighted c False) True
    \<and> card_attrs (applyRulesToCard host c rules) HIDDEN_ATTR = Some ''1''
    \<and> card_attrs (applyRulesToCard host c rules) HIGHLIGHT_ATTR = None
    \<and> (\<forall>inc. applyRulesToCard host c (rules\<lparr>includePhrases := inc\<rparr>)
               = applyRulesToCard host c rules)"
proof -
  from assms(1)
  have ex: "hasAnyPhrase (normalizeText (getTitleTextFromCard host c))
              (normalizePhrases (excludePhrases rules))"
    by (simp add: hasAnyPhrase_normalized)
  then have ne: "normalizeText (getTitleTextFromCard host c) \<noteq> []"
    by (auto simp: hasAnyPhrase_def)
  have eq: "applyRulesToCard host c r = setHidden (setHighlighted c False) True"
    if "excludePhrases r = excludePhrases rules" for r
    using ne ex that by (simp add: applyRulesToCard_def Let_def)
  have a: "applyRulesToCard host c rules = setHidden (setHighlighted c False) True"
    by (rule eq) simp
  have b: "card_attrs (setHidden (setHighlighted c False) True) HIDDEN_ATTR = Some ''1''"
    by (simp add: setHidden_attrs)
  have d: "card_attrs (setHidden (setHighlighted c False) True) HIGHLIGHT_ATTR = None"
    using marker_attrs_distinct by (simp add: setHidden_attrs setHighlighted_attrs)
  have e: "applyRulesToCard host c (rules\<lparr>includePhrases := inc\<rparr>)
             = applyRulesToCard host c rules" for inc
    using eq [of "rules\<lparr>includePhrases := inc\<rparr>"] a by simp
  from a b d e show ?thesis by simp
qed

theorem applyRulesToCard_exclude_wins_witness:
  "(\<exists>p\<in>set (normalizePhrases (excludePhrases
        \<lparr>includePhrases = Some [''dewalt''], excludePhrases = Some [''broken'']\<rparr>)).
      sublist p (normalizeText (getTitleTextFromCard ''www.bidfta.com''
        \<lparr>card_attrs = [HIGHLIGHT_ATTR \<mapsto> ''1''], card_display = [],
          card_matches = (\<lambda>s. False),
          card_querySelector = (\<lambda>s. if s = ''h4''
            then Some \<lparr>el_attrs = Map.empty, el_textContent = ''DeWalt Drill - Broken case''\<rparr>
            else None)\<rparr>)))
   \<and> (\<exists>p\<in>set (normalizePhrases (includePhrases
        \<lparr>includePhrases = Some [''dewalt''], excludePhrases = Some [''broken'']\<rparr>)).
      sublist p (normalizeText (getTitleTextFromCard ''www.bidfta.com''
        \<lparr>card_attrs = [HIGHLIGHT_ATTR \<mapsto> ''1''], card_display = [],
          card_matches = (\<lambda>s. False),
          card_querySelector = (\<lambda>s. if s = ''h4''
            then Some \<lparr>el_attrs = Map.empty, el_textContent = ''DeWalt Drill - Broken case''\<rparr>
            else None)\<rparr>)))
   \<and> card_attrs (applyRulesToCard ''www.bidfta.com''
      \<lparr>card_attrs = [HIGHLIGHT_ATTR \<mapsto> ''1''], card_display = [],
        card_matches = (\<lambda>s. False),
        card_querySelector = (\<lambda>s. if s = ''h4''
          then Some \<lparr>el_attrs = Map.empty, el_textContent = ''DeWalt Drill - Broken case''\<rparr>
          else None)\<rparr>
      \<lparr>includePhrases = Some [''dewalt''], excludePhrases = Some [''broken'']\<rparr>) HIDDEN_ATTR
     = Some ''1''
   \<and> card_attrs (applyRulesToCard ''www.bidfta.com''
      \<lparr>card_attrs = [HIGHLIGHT_ATTR \<mapsto> ''1''], card_display = [],
        card_matches = (\<lambda>s. False),
        card_querySelector = (\<lambda>s. if s = ''h4''
          then Some \<lparr>el_attrs = Map.empty, el_textContent = ''DeWalt Drill - Broken case''\<rparr>
          else None)\<rparr>
      \<lparr>includePhrases = Some [''dewalt''], excludePhrases = Some [''broken'']\<rparr>) HIGHLIGHT_ATTR
     = None"
proof -
  let ?c = "\<lparr>card_attrs = [HIGHLIGHT_ATTR \<mapsto> ''1''], card_display = [],
        card_matches = (\<lambda>s. False),
        card_querySelector = (\<lambda>s. if s = ''h4''
          then Some \<lparr>el_attrs = Map.empty, el_textContent = ''DeWalt Drill - Broken case''\<rparr>
          else None)\<rparr>"
  let ?r = "\<lparr>includePhrases = Some [''dewalt''], excludePhrases = Some [''broken'']\<rparr>"
  have sel: "getTitleSelectorForHost ''www.bidfta.com'' = ''h4''" by code_simp
  have n: "normalizeText (trim ''DeWalt Drill - Broken case'') = ''dewalt drill - broken case''"
    by code_simp
  have t: "normalizeText (getTitleTextFromCard ''www.bidfta.com'' ?c)
             = ''dewalt drill - broken case''"
    by (simp add: getTitleTextFromCard_def findTitleElementForHost_def sel rawTitleText_def
          or_else_def n)
  have pe: "normalizePhrases (excludePhrases ?r) = [''broken'']" by code_simp
  have pi: "normalizePhrases (includePhrases ?r) = [''dewalt'']" by code_simp
  have se: "sublist ''broken'' ''dewalt drill - broken case''"
    by (simp add: sublist_Cons_right)
  have si: "sublist ''dewalt'' ''dewalt drill - broken case''"
    by (simp add: sublist_Cons_right)
  have h1: "\<exists>p\<in>set (normalizePhrases (excludePhrases ?r)).
              sublist p (normalizeText (getTitleTextFromCard ''www.bidfta.com'' ?c))"
    unfolding t pe using se by simp
  have h2: "\<exists>p\<in>set (normalizePhrases (includePhrases ?r)).
              sublist p (normalizeText (getTitleTextFromCard ''www.bidfta.com'' ?c))"
    unfolding t pi using si by simp
  show ?thesis
    using h1 h2 applyRulesToCard_exclude_wins [OF h1 h2] by blast
qed

subsection \<open>Cards without a title\<close>

text \<open>
  C2. When the extracted title of a card normalises to the empty string,
  \<open>applyRulesToCard\<close> removes both markers whatever the rules hold: the card is
  neutral.
\<close>

theorem applyRulesToCard_empty_title_neutral:
  assumes "normalizeText (getTitleTextFromCard host c) = []"
  shows "applyRulesToCard host c rules = setHighlighted (setHidden c False) False
    \<and> card_attrs (applyRulesToCard host c rules) HIDDEN_ATTR = None
    \<and> card_attrs (applyRulesToCard host c rules) HIGHLIGHT_ATTR = None"
  using assms marker_attrs_distinct
  by (simp add: applyRulesToCard_def setHidden_attrs setHighlighted_attrs)

theorem applyRulesToCard_empty_title_neutral_witness:
  "normalizeText (getTitleTextFromCard ''www.bidfta.com''
      \<lparr>card_attrs = [HIDDEN_ATTR \<mapsto> ''1''], card_display = [], card_matches = (\<lambda>s. False),
        card_querySelector = (\<lambda>s. if s = ''h4''
           then Some \<lparr>el_attrs = Map.empty, el_textContent = ''   ''\<rparr> else None)\<rparr>) = []
   \<and> card_attrs (applyRulesToCard ''www.bidfta.com''
      \<lparr>card_attrs = [HIDDEN_ATTR \<mapsto> ''1''], card_display = [], card_matches = (\<lambda>s. False),
        card_querySelector = (\<lambda>s. if s = ''h4''
           then Some \<lparr>el_attrs = Map.empty, el_textContent = ''   ''\<rparr> else None)\<rparr>
      \<lparr>includePhrases = Some [], excludePhrases = Some [''x'']\<rparr>) HIDDEN_ATTR = None
   \<and> card_attrs (applyRulesToCard ''www.bidfta.com''
      \<lparr>card_attrs = [HIDDEN_ATTR \<mapsto> ''1''], card_display = [], card_matches = (\<lambda>s. False),
        card_querySelector = (\<lambda>s. if s = ''h4''
           then Some \<lparr>el_attrs = Map.empty, el_textContent = ''   ''\<rparr> else None)\<rparr>
      \<lparr>includePhrases = Some [], excludePhrases = Some [''x'']\<rparr>) HIGHLIGHT_ATTR = None"
proof -
  let ?c = "\<lparr>card_attrs = [HIDDEN_ATTR \<mapsto> ''1''], card_display = [],
        card_matches = (\<lambda>s. False),
        card_querySelector = (\<lambda>s. if s = ''h4''
           then Some \<lparr>el_attrs = Map.empty, el_textContent = ''   ''\<rparr> else None)\<rparr>"
  have sel: "getTitleSelectorForHost ''www.bidfta.com'' = ''h4''" by code_simp
  have n: "normalizeText (trim ''   '') = []" by code_simp
  have t: "normalizeText (getTitleTextFromCard ''www.bidfta.com'' ?c) = []"
    by (simp add: getTitleTextFromCard_def findTitleElementForHost_def sel rawTitleText_def
          or_else_def n)
  show ?thesis
    using t applyRulesToCard_empty_title_neutral [OF t] by blast
qed

subsection \<open>Selector lookup for an unsupported host\<close>

text \<open>
  C3. A host that matches no entry of the domain table should obtain a non-empty default
  card selector and the empty title selector. The tables have the keys
  \<^verbatim>\<open>bidfta.com\<close> and \<^verbatim>\<open>govdeals.com\<close>; the host \<^verbatim>\<open>example.com\<close> matches neither.
  For this host \<open>getTitleSelectorForHost\<close> returns the empty string, but
  \<open>getItemSelectorForHost\<close> leaves its loop and ends without returning a selector:
  its value is \<^verbatim>\<open>undefined\<close>, not a default selector string.
\<close>

theorem getItemSelectorForHost_unmatched_undefined:
  "map fst ITEM_SELECTOR_BY_DOMAIN = [''bidfta.com'', ''govdeals.com'']
   \<and> map fst TITLE_SELECTOR_BY_DOMAIN = [''bidfta.com'', ''govdeals.com'']
   \<and> hostMatchesDomain ''example.com'' ''bidfta.com'' = False
   \<and> hostMatchesDomain ''example.com'' ''govdeals.com'' = False
   \<and> getItemSelectorForHost ''example.com'' = None
   \<and> getTitleSelectorForHost ''example.com'' = []"
  by code_simp

subsection \<open>Title extraction\<close>

text \<open>
  C4. For a card whose title element exists, the text picked from the element is its
  \<^verbatim>\<open>title\<close> attribute when that attribute is present and not empty, otherwise its
  text content, and the empty string when both are absent or empty.
  \<open>getTitleTextFromCard\<close> returns the picked text with surrounding whitespace
  trimmed.
\<close>

theorem getTitleTextFromCard_prefers_title_attr:
  assumes "findTitleElementForHost host c = Some titleEl"
  shows "getTitleTextFromCard host c = trim (rawTitleText titleEl)
    \<and> (\<forall>a. el_attrs titleEl ''title'' = Some a \<and> a \<noteq> [] \<longrightarrow> rawTitleText titleEl = a)
    \<and> (el_attrs titleEl ''title'' = None \<or> el_attrs titleEl ''title'' = Some []
         \<longrightarrow> rawTitleText titleEl = el_textContent titleEl)
    \<and> ((el_attrs titleEl ''title'' = None \<or> el_attrs titleEl ''title'' = Some [])
          \<and> el_textContent titleEl = [] \<longrightarrow> rawTitleText titleEl = [])"
  using assms
  by (auto simp: getTitleTextFromCard_def rawTitleText_def or_else_def)

theorem getTitleTextFromCard_prefers_title_attr_witness:
  "findTitleElementForHost ''www.bidfta.com''
      \<lparr>card_attrs = Map.empty, card_display = [], card_matches = (\<lambda>s. False),
        card_querySelector = (\<lambda>s. if s = ''h4''
           then Some \<lparr>el_attrs = [''title'' \<mapsto> ''DeWalt Cordless Drill''],
                      el_textContent = ''DeWalt Cord...''\<rparr> else None)\<rparr>
     = Some \<lparr>el_attrs = [''title'' \<mapsto> ''DeWalt Cordless Drill''],
             el_textContent = ''DeWalt Cord...''\<rparr>
   \<and> getTitleTextFromCard ''www.bidfta.com''
      \<lparr>card_attrs = Map.empty, card_display = [], card_matches = (\<lambda>s. False),
        card_querySelector = (\<lambda>s. if s = ''h4''
           then Some \<lparr>el_attrs = [''title'' \<mapsto> ''DeWalt Cordless Drill''],
                      el_textContent = ''DeWalt Cord...''\<rparr> else None)\<rparr>
     = ''DeWalt Cordless Drill''"
proof -
  let ?el = "\<lparr>el_attrs = [''title'' \<mapsto> ''DeWalt Cordless Drill''],
                      el_textContent = ''DeWalt Cord...''\<rparr>"
  let ?c = "\<lparr>card_attrs = Map.empty, card_display = [], card_matches = (\<lambda>s. False),
        card_querySelector = (\<lambda>s. if s = ''h4'' then Some ?el else None)\<rparr>"
  have sel: "getTitleSelectorForHost ''www.bidfta.com'' = ''h4''" by code_simp
  have f: "findTitleElementForHost ''www.bidfta.com'' ?c = Some ?el"
    by (simp add: findTitleElementForHost_def sel)
  have t: "trim ''DeWalt Cordless Drill'' = ''DeWalt Cordless Drill''" by code_simp
  show ?thesis
    using f t getTitleTextFromCard_prefers_title_attr [OF f] by simp
qed

subsection \<open>The exclusion marker leaves the rest of the card alone\<close>

text \<open>
  C5. \<open>setHidden\<close> writes or removes the exclusion marker attribute and nothing else:
  the inline display style of the card, the selectors it matches, its descendants and
  every other attribute are as before. In particular it never sets the display style to
  \<^verbatim>\<open>none\<close>.
\<close>

theorem setHidden_frame:
  "setHidden c shouldHide =
     c\<lparr>card_attrs := (card_attrs c)(HIDDEN_ATTR := (if shouldHide then Some ''1'' else None))\<rparr>
   \<and> card_display (setHidden c shouldHide) = card_display c
   \<and> card_matches (setHidden c shouldHide) = card_matches c
   \<and> card_querySelector (setHidden c shouldHide) = card_querySelector c
   \<and> (\<forall>k. k \<noteq> HIDDEN_ATTR \<longrightarrow> card_attrs (setHidden c shouldHide) k = card_attrs c k)"
  by (simp add: setHidden_def)

theorem setHidden_frame_witness:
  "''class'' \<noteq> HIDDEN_ATTR
   \<and> card_attrs (setHidden \<lparr>card_attrs = [''class'' \<mapsto> ''card''], card_display = ''block'',
        card_matches = (\<lambda>s. s = ''div.card''), card_querySelector = (\<lambda>s. None)\<rparr> True) ''class''
       = Some ''card''
   \<and> card_display (setHidden \<lparr>card_attrs = [''class'' \<mapsto> ''card''], card_display = ''block'',
        card_matches = (\<lambda>s. s = ''div.card''), card_querySelector = (\<lambda>s. None)\<rparr> True)
       = ''block''"
proof -
  have k: "''class'' \<noteq> HIDDEN_ATTR" by (simp add: HIDDEN_ATTR_def)
  show ?thesis
    using k setHidden_frame [of "\<lparr>card_attrs = [''class'' \<mapsto> ''card''], card_display = ''block'',
        card_matches = (\<lambda>s. s = ''div.card''), card_querySelector = (\<lambda>s. None)\<rparr>" True]
    by simp
qed

subsection \<open>Phrase matching\<close>

text \<open>
  C6. \<open>hasAnyPhrase h p\<close> holds exactly when \<open>h\<close> is not empty, \<open>p\<close> is not
  empty, and some element of \<open>p\<close> that is itself not empty is a substring of \<open>h\<close>.
  It is false for the empty phrase list and for the empty haystack. An empty phrase
  never matches, although the empty string is a substring of every string: the phrase
  list holding only the empty string does not match the haystack \<^verbatim>\<open>a\<close>.
\<close>

theorem hasAnyPhrase_substring:
  "(hasAnyPhrase h p \<longleftrightarrow> h \<noteq> [] \<and> p \<noteq> [] \<and> (\<exists>x\<in>set p. x \<noteq> [] \<and> sublist x h))
   \<and> hasAnyPhrase h [] = False \<and> hasAnyPhrase [] p = False"
  by (auto simp: hasAnyPhrase_def list_ex_iff includes_str_sublist)

theorem hasAnyPhrase_substring_witness:
  "hasAnyPhrase ''parts only'' [''drill'', ''part''] \<and> sublist ''part'' ''parts only''"
proof -
  have s: "sublist ''part'' ''parts only''"
    by (simp add: sublist_Cons_right)
  show ?thesis
    using s hasAnyPhrase_substring [of "''parts only''" "[''drill'', ''part'']"] by simp
qed

theorem hasAnyPhrase_empty_phrase_counterexample:
  "hasAnyPhrase ''a'' [''''] = False \<and> ''a'' \<noteq> [] \<and> [''''] \<noteq> ([] :: string list)
   \<and> '''' \<in> set [''''] \<and> sublist '''' ''a''"
  by (simp add: hasAnyPhrase_def)

subsection \<open>Host matching\<close>

text \<open>
  C7. For a domain that is not empty, as every key of the two tables is, a host matches
  the domain exactly when it equals the domain or ends with a dot followed by the
  domain. So \<^verbatim>\<open>shop.bidfta.com\<close> obtains the selectors of the \<^verbatim>\<open>bidfta.com\<close> entry
  and \<^verbatim>\<open>notbidfta.com\<close> obtains none.
\<close>

theorem hostMatchesDomain_suffix:
  "(domain \<noteq> [] \<longrightarrow>
      (hostMatchesDomain host domain \<longleftrightarrow> host = domain \<or> suffix (''.'' @ domain) host))
   \<and> (\<forall>e \<in> set ITEM_SELECTOR_BY_DOMAIN \<union> set TITLE_SELECTOR_BY_DOMAIN. fst e \<noteq> [])
   \<and> getTitleSelectorForHost ''shop.bidfta.com'' = ''h4''
   \<and> getItemSelectorForHost ''shop.bidfta.com'' = Some (snd (hd ITEM_SELECTOR_BY_DOMAIN))
   \<and> getTitleSelectorForHost ''notbidfta.com'' = []
   \<and> getItemSelectorForHost ''notbidfta.com'' = None"
proof -
  have a: "domain \<noteq> [] \<longrightarrow>
      (hostMatchesDomain host domain \<longleftrightarrow> host = domain \<or> suffix (''.'' @ domain) host)"
    by (auto simp: hostMatchesDomain_def endsWith_suffix)
  have b: "\<forall>e \<in> set ITEM_SELECTOR_BY_DOMAIN \<union> set TITLE_SELECTOR_BY_DOMAIN. fst e \<noteq> []"
    by (simp add: ITEM_SELECTOR_BY_DOMAIN_def TITLE_SELECTOR_BY_DOMAIN_def)
  have c: "getTitleSelectorForHost ''shop.bidfta.com'' = ''h4''" by code_simp
  have d: "getItemSelectorForHost ''shop.bidfta.com'' = Some (snd (hd ITEM_SELECTOR_BY_DOMAIN))"
    by code_simp
  have e: "getTitleSelectorForHost ''notbidfta.com'' = []" by code_simp
  have f: "getItemSelectorForHost ''notbidfta.com'' = None" by code_simp
  from a b c d e f show ?thesis by blast
qed

theorem hostMatchesDomain_suffix_witness:
  "''bidfta.com'' \<noteq> [] \<and> hostMatchesDomain ''www.bidfta.com'' ''bidfta.com''
   \<and> \<not> hostMatchesDomain ''notbidfta.com'' ''bidfta.com''"
proof -
  have s: "suffix ''.bidfta.com'' ''www.bidfta.com''"
    by (simp add: suffix_to_prefix)
  have n: "\<not> suffix ''.bidfta.com'' ''notbidfta.com''"
    by (simp add: suffix_to_prefix)
  show ?thesis
    using s n hostMatchesDomain_suffix [of "''bidfta.com''" "''www.bidfta.com''"]
      hostMatchesDomain_suffix [of "''bidfta.com''" "''notbidfta.com''"]
    by simp
qed

subsection \<open>Mutation batches\<close>

text \<open>
  C8. The observer callback scans the page exactly once when some mutation record of the
  batch added a node, and leaves the page untouched when no record added a node. Each
  scan writes one entry to the log, so the log grows by one or by nothing.
\<close>

theorem observerCallback_rescans_once:
  "observerCallback host rules mutations pg =
     (if (\<exists>m\<in>set mutations. addedNodes m \<noteq> []) then applyRulesToPage host rules pg else pg)
   \<and> length (page_log (observerCallback host rules mutations pg)) =
       length (page_log pg) + (if (\<exists>m\<in>set mutations. addedNodes m \<noteq> []) then 1 else 0)"
  by (simp add: observerCallback_def anyAdded_iff applyRulesToPage_log)

theorem observerCallback_rescans_once_witness:
  "length (page_log (observerCallback ''www.bidfta.com'' defaultSiteRules
      [\<lparr>addedNodes = [], removedNodes = [7]\<rparr>, \<lparr>addedNodes = [1, 2, 3], removedNodes = []\<rparr>,
       \<lparr>addedNodes = [4], removedNodes = []\<rparr>]
      \<lparr>page_elements = [], page_style_injected = False, page_log = []\<rparr>)) = 1
   \<and> length (page_log (observerCallback ''www.bidfta.com'' defaultSiteRules
      [\<lparr>addedNodes = [], removedNodes = [7]\<rparr>, \<lparr>addedNodes = [], removedNodes = [8, 9]\<rparr>]
      \<lparr>page_elements = [], page_style_injected = False, page_log = []\<rparr>)) = 0"
  using observerCallback_rescans_once [THEN conjunct2, of "''www.bidfta.com''" defaultSiteRules
      "[\<lparr>addedNodes = [], removedNodes = [7]\<rparr>, \<lparr>addedNodes = [1, 2, 3], removedNodes = []\<rparr>,
       \<lparr>addedNodes = [4], removedNodes = []\<rparr>]"
      "\<lparr>page_elements = [], page_style_injected = False, page_log = []\<rparr>"]
    observerCallback_rescans_once [THEN conjunct2, of "''www.bidfta.com''" defaultSiteRules
      "[\<lparr>addedNodes = [], removedNodes = [7]\<rparr>, \<lparr>addedNodes = [], removedNodes = [8, 9]\<rparr>]"
      "\<lparr>page_elements = [], page_style_injected = False, page_log = []\<rparr>"]
  by simp

subsection \<open>The two markers exclude each other\<close>

text \<open>
  C9. After \<open>applyRulesToCard\<close> a card never carries the highlight marker and the
  exclusion marker together. When the normalised title contains a normalised exclude
  phrase the highlight marker is removed and the exclusion marker set; in every other
  case, included or neutral, the exclusion marker is removed.
\<close>

theorem applyRulesToCard_markers_exclusive:
  "\<not> (card_attrs (applyRulesToCard host c rules) HIGHLIGHT_ATTR \<noteq> None
        \<and> card_attrs (applyRulesToCard host c rules) HIDDEN_ATTR \<noteq> None)
   \<and> ((\<exists>p\<in>set (normalizePhrases (excludePhrases rules)).
          sublist p (normalizeText (getTitleTextFromCard host c)))
        \<longrightarrow> card_attrs (applyRulesToCard host c rules) HIGHLIGHT_ATTR = None
          \<and> card_attrs (applyRulesToCard host c rules) HIDDEN_ATTR = Some ''1'')
   \<and> (\<not> (\<exists>p\<in>set (normalizePhrases (excludePhrases rules)).
          sublist p (normalizeText (getTitleTextFromCard host c)))
        \<longrightarrow> card_attrs (applyRulesToCard host c rules) HIDDEN_ATTR = None)"
proof (cases "hasAnyPhrase (normalizeText (getTitleTextFromCard host c))
          (normalizePhrases (excludePhrases rules))")
  case True
  then have "normalizeText (getTitleTextFromCard host c) \<noteq> []"
    by (auto simp: hasAnyPhrase_def)
  with True have "applyRulesToCard host c rules = setHidden (setHighlighted c False) True"
    by (simp add: applyRulesToCard_def Let_def)
  moreover from True
  have "\<exists>p\<in>set (normalizePhrases (excludePhrases rules)).
          sublist p (normalizeText (getTitleTextFromCard host c))"
    by (simp add: hasAnyPhrase_normalized)
  ultimately show ?thesis
    using marker_attrs_distinct by (simp add: setHidden_attrs setHighlighted_attrs)
next
  case False
  then have "card_attrs (applyRulesToCard host c rules) HIDDEN_ATTR = None"
    using marker_attrs_distinct
    by (simp add: applyRulesToCard_def Let_def setHidden_attrs setHighlighted_attrs)
  moreover from False
  have "\<not> (\<exists>p\<in>set (normalizePhrases (excludePhrases rules)).
          sublist p (normalizeText (getTitleTextFromCard host c)))"
    by (simp add: hasAnyPhrase_normalized)
  ultimately show ?thesis by simp
qed

theorem applyRulesToCard_markers_exclusive_witness:
  "\<not> (\<exists>p\<in>set (normalizePhrases (excludePhrases
          \<lparr>includePhrases = Some [''dewalt''], excludePhrases = Some [''broken'']\<rparr>)).
        sublist p (normalizeText (getTitleTextFromCard ''www.govdeals.com''
          \<lparr>card_attrs = [HIGHLIGHT_ATTR \<mapsto> ''1'', HIDDEN_ATTR \<mapsto> ''1''], card_display = [],
            card_matches = (\<lambda>s. False),
            card_querySelector = (\<lambda>s. if s = ''.card-title a''
              then Some \<lparr>el_attrs = Map.empty, el_textContent = ''Dewalt Impact Driver''\<rparr>
              else None)\<rparr>)))
   \<and> card_attrs (applyRulesToCard ''www.govdeals.com''
      \<lparr>card_attrs = [HIGHLIGHT_ATTR \<mapsto> ''1'', HIDDEN_ATTR \<mapsto> ''1''], card_display = [],
        card_matches = (\<lambda>s. False),
        card_querySelector = (\<lambda>s. if s = ''.card-title a''
          then Some \<lparr>el_attrs = Map.empty, el_textContent = ''Dewalt Impact Driver''\<rparr>
          else None)\<rparr>
      \<lparr>includePhrases = Some [''dewalt''], excludePhrases = Some [''broken'']\<rparr>) HIDDEN_ATTR
     = None"
proof -
  let ?c = "\<lparr>card_attrs = [HIGHLIGHT_ATTR \<mapsto> ''1'', HIDDEN_ATTR \<mapsto> ''1''],
        card_display = [], card_matches = (\<lambda>s. False),
        card_querySelector = (\<lambda>s. if s = ''.card-title a''
          then Some \<lparr>el_attrs = Map.empty, el_textContent = ''Dewalt Impact Driver''\<rparr>
          else None)\<rparr>"
  let ?r = "\<lparr>includePhrases = Some [''dewalt''], excludePhrases = Some [''broken'']\<rparr>"
  have sel: "getTitleSelectorForHost ''www.govdeals.com'' = ''.card-title a''" by code_simp
  have n: "normalizeText (trim ''Dewalt Impact Driver'') = ''dewalt impact driver''"
    by code_simp
  have t: "normalizeText (getTitleTextFromCard ''www.govdeals.com'' ?c)
             = ''dewalt impact driver''"
    by (simp add: getTitleTextFromCard_def findTitleElementForHost_def sel rawTitleText_def
          or_else_def n)
  have pe: "normalizePhrases (excludePhrases ?r) = [''broken'']" by code_simp
  have ns: "\<not> sublist ''broken'' ''dewalt impact driver''"
    by (simp add: sublist_Cons_right)
  have h: "\<not> (\<exists>p\<in>set (normalizePhrases (excludePhrases ?r)).
             sublist p (normalizeText (getTitleTextFromCard ''www.govdeals.com'' ?c)))"
    unfolding t pe using ns by simp
  show ?thesis
    using h applyRulesToCard_markers_exclusive [of "''www.govdeals.com''" ?c ?r] by blast
qed

end
